theory Spec2Isabelle
  imports Complex_Main "HOL-Library.Char_ord" "HOL-Library.List_Lexorder" "HOL-Library.Sublist"
    "HOL-Library.Multiset"
begin

section \<open>Python values\<close>

text \<open>
  The dashboard works on the JSON-like dictionaries that the exchange gateway returns.
  A value is \<open>None\<close>, a bool, an int, a float, a string or a dict with string keys
  (no field that the dashboard reads holds a list). Floats are modelled by their exact
  rational value: NaN, the infinities and the rounding of float arithmetic are outside
  the model.
\<close>

datatype pyval =
    PNone
  | PBool bool
  | PInt int
  | PFloat rat
  | PStr string
  | PDict "(string \<times> pyval) list"

type_synonym pydict = "(string \<times> pyval) list"

datatype exn =
    TypeError
  | ValueError
  | AttributeError
  | OverflowError
  | ZeroDivisionError
  | GatewayError string

text \<open>\<open>d.get(k, dflt)\<close>\<close>

definition dict_get :: "pydict \<Rightarrow> string \<Rightarrow> pyval \<Rightarrow> pyval" where
  "dict_get d k dflt = (case map_of d k of None \<Rightarrow> dflt | Some v \<Rightarrow> v)"

text \<open>The numeric value of a Python number (\<open>bool\<close> is a subclass of \<open>int\<close>).\<close>

fun num_of :: "pyval \<Rightarrow> rat option" where
  "num_of (PBool b) = Some (if b then 1 else 0)"
| "num_of (PInt i) = Some (of_int i)"
| "num_of (PFloat q) = Some q"
| "num_of _ = None"

text \<open>
  \<open>v != n\<close> for an int literal \<open>n\<close>: numbers compare by value, every other
  value is unequal to a number.
\<close>

definition py_ne_int :: "pyval \<Rightarrow> int \<Rightarrow> bool" where
  "py_ne_int v n = (case num_of v of None \<Rightarrow> True | Some q \<Rightarrow> q \<noteq> of_int n)"

section \<open>The exchange gateway and the client\<close>

text \<open>
  The gateway (\<open>ccxt.hyperliquid\<close>) is a black box: each of its three calls either
  raises or returns a payload. What the code does to the outside world is recorded as a
  list of events: the calls made to the gateway and the messages handed to the user
  interface.
\<close>

record gateway =
  fetch_balance :: "exn + pydict"
  fetch_positions :: "exn + pydict list"
  fetch_my_trades :: "string \<Rightarrow> int \<Rightarrow> exn + pydict list"

datatype event =
    Gw_fetch_balance
  | Gw_fetch_positions
  | Gw_fetch_my_trades string int
  | St_error string exn
  | St_warning string
  | St_info string
  | St_metric string string
  | St_progress rat string
  | St_markdown string string
  | St_dataframe "(string \<times> pyval) list list"

text \<open>
  \<open>_initialize_client\<close>: the constructor of the gateway either raises or returns the
  connection; \<open>self.client\<close> is \<open>None\<close> after a failure.
\<close>

definition initialize_client :: "exn + gateway \<Rightarrow> gateway option \<times> event list" where
  "initialize_client ctor =
     (case ctor of
        Inl e \<Rightarrow> (None, [St_error ''Error initializing client: '' e])
      | Inr gw \<Rightarrow> (Some gw, []))"

definition get_account_balance :: "gateway option \<Rightarrow> pydict option \<times> event list" where
  "get_account_balance client =
     (case client of
        None \<Rightarrow> (None, [])
      | Some gw \<Rightarrow>
          (case fetch_balance gw of
             Inl e \<Rightarrow> (None, [Gw_fetch_balance, St_error ''Error fetching balance: '' e])
           | Inr b \<Rightarrow> (Some b, [Gw_fetch_balance])))"

text \<open>The list comprehension of \<open>get_open_positions\<close>.\<close>

fun active_positions :: "pydict list \<Rightarrow> pydict list" where
  "active_positions [] = []"
| "active_positions (pos # positions) =
     (if py_ne_int (dict_get pos ''contracts'' (PInt 0)) 0
      then pos # active_positions positions
      else active_positions positions)"

definition get_open_positions :: "gateway option \<Rightarrow> pydict list \<times> event list" where
  "get_open_positions client =
     (case client of
        None \<Rightarrow> ([], [])
      | Some gw \<Rightarrow>
          (case fetch_positions gw of
             Inl e \<Rightarrow> ([], [Gw_fetch_positions, St_error ''Error fetching positions: '' e])
           | Inr positions \<Rightarrow> (active_positions positions, [Gw_fetch_positions])))"

subsection \<open>Trade history\<close>

text \<open>
  A naive \<open>datetime\<close> is the number of microseconds since 0001-01-01 00:00:00;
  \<open>datetime.max\<close> is the last microsecond of the year 9999. \<open>timedelta(days=n)\<close>
  raises \<open>OverflowError\<close> beyond 999999999 days, and so does a subtraction that
  leaves the range of \<open>datetime\<close>.
\<close>

type_synonym datetime = int

definition datetime_limit :: int where
  "datetime_limit = 3652059 * 86400000000"

definition timedelta_days :: "int \<Rightarrow> exn + int" where
  "timedelta_days days =
     (if \<bar>days\<bar> > 999999999 then Inl OverflowError else Inr (days * 86400000000))"

definition datetime_sub :: "datetime \<Rightarrow> int \<Rightarrow> exn + datetime" where
  "datetime_sub dt td =
     (if 0 \<le> dt - td \<and> dt - td < datetime_limit then Inr (dt - td) else Inl OverflowError)"

text \<open>\<open>int(x)\<close> of a float truncates towards zero.\<close>

definition py_int :: "rat \<Rightarrow> int" where
  "py_int q = (if 0 \<le> q then \<lfloor>q\<rfloor> else \<lceil>q\<rceil>)"

text \<open>
  \<open>since = int((datetime.now() - timedelta(days=days)).timestamp() * 1000)\<close>.
  The reading \<open>now\<close> of the local clock and \<open>timestamp_of\<close>, the conversion of a
  naive local time to POSIX seconds (it depends on the time zone of the host), are
  parameters.
\<close>

definition cutoff :: "(datetime \<Rightarrow> exn + rat) \<Rightarrow> datetime \<Rightarrow> int \<Rightarrow> exn + int" where
  "cutoff timestamp_of now days =
     (case timedelta_days days of
        Inl e \<Rightarrow> Inl e
      | Inr td \<Rightarrow>
          (case datetime_sub now td of
             Inl e \<Rightarrow> Inl e
           | Inr dt \<Rightarrow>
               (case timestamp_of dt of
                  Inl e \<Rightarrow> Inl e
                | Inr t \<Rightarrow> Inr (py_int (t * 1000)))))"

definition symbols :: "string list" where
  "symbols = [''BTC/USDC:USDC'', ''ETH/USDC:USDC'', ''SOL/USDC:USDC'',
              ''XRP/USDC:USDC'', ''AVAX/USDC:USDC'']"

text \<open>
  The loop over the symbols: a fetch that raises is skipped (the bare \<open>except\<close>), the
  trades of the others are appended to \<open>all_trades\<close>.
\<close>

fun fetch_symbols ::
  "gateway \<Rightarrow> int \<Rightarrow> string list \<Rightarrow> pydict list \<times> event list \<Rightarrow> pydict list \<times> event list" where
  "fetch_symbols gw since [] acc = acc"
| "fetch_symbols gw since (symbol # rest) (all_trades, evs) =
     (case fetch_my_trades gw symbol since of
        Inl e \<Rightarrow> fetch_symbols gw since rest (all_trades, evs @ [Gw_fetch_my_trades symbol since])
      | Inr trades \<Rightarrow>
          fetch_symbols gw since rest (all_trades @ trades, evs @ [Gw_fetch_my_trades symbol since]))"

text \<open>The sort key \<open>x.get('timestamp', 0)\<close>.\<close>

definition trade_key :: "pydict \<Rightarrow> pyval" where
  "trade_key x = dict_get x ''timestamp'' (PInt 0)"

fun is_str :: "pyval \<Rightarrow> bool" where
  "is_str (PStr s) = True"
| "is_str _ = False"

fun str_val :: "pyval \<Rightarrow> string" where
  "str_val (PStr s) = s"
| "str_val _ = []"

definition is_num :: "pyval \<Rightarrow> bool" where
  "is_num v = (num_of v \<noteq> None)"

definition num_val :: "pyval \<Rightarrow> rat" where
  "num_val v = (case num_of v of None \<Rightarrow> 0 | Some q \<Rightarrow> q)"

text \<open>
  \<open>xs.sort(key=key, reverse=True)\<close>. The sort of Python is stable; with
  \<open>reverse=True\<close> it reverses the list, sorts it in ascending order and reverses the
  result, so that elements with equal keys keep their original order. A list of at most
  one element is compared with nothing. Numbers are ordered by value and strings
  lexicographically; \<open>None\<close>, dicts and a mix of numbers and strings cannot be compared,
  and the comparison raises \<open>TypeError\<close>.
\<close>

definition py_sort_reverse :: "('a \<Rightarrow> pyval) \<Rightarrow> 'a list \<Rightarrow> exn + 'a list" where
  "py_sort_reverse key xs =
     (if length xs \<le> 1 then Inr xs
      else if list_all (\<lambda>x. is_num (key x)) xs
        then Inr (rev (sort_key (\<lambda>x. num_val (key x)) (rev xs)))
      else if list_all (\<lambda>x. is_str (key x)) xs
        then Inr (rev (sort_key (\<lambda>x. str_val (key x)) (rev xs)))
      else Inl TypeError)"

definition get_trade_history ::
  "(datetime \<Rightarrow> exn + rat) \<Rightarrow> datetime \<Rightarrow> gateway option \<Rightarrow> int \<Rightarrow> pydict list \<times> event list" where
  "get_trade_history timestamp_of now client days =
     (case client of
        None \<Rightarrow> ([], [])
      | Some gw \<Rightarrow>
          (case cutoff timestamp_of now days of
             Inl e \<Rightarrow> ([], [St_error ''Error fetching trade history: '' e])
           | Inr since \<Rightarrow>
               (case fetch_symbols gw since symbols ([], []) of
                  (all_trades, evs) \<Rightarrow>
                    (case py_sort_reverse trade_key all_trades of
                       Inl e \<Rightarrow> ([], evs @ [St_error ''Error fetching trade history: '' e])
                     | Inr sorted_trades \<Rightarrow> (sorted_trades, evs)))))"

text \<open>
  The words of the specification: the per-symbol results, where a symbol whose fetch
  failed contributes nothing, concatenated in the order of the symbols.
\<close>

definition symbol_result :: "gateway \<Rightarrow> int \<Rightarrow> string \<Rightarrow> pydict list" where
  "symbol_result gw since symbol =
     (case fetch_my_trades gw symbol since of Inl e \<Rightarrow> [] | Inr trades \<Rightarrow> trades)"

definition combined_trades :: "gateway \<Rightarrow> int \<Rightarrow> pydict list" where
  "combined_trades gw since = concat (map (symbol_result gw since) symbols)"

definition timestamp_num :: "pydict \<Rightarrow> rat" where
  "timestamp_num x = num_val (trade_key x)"


text \<open>
  The words of the specification: the size of a position is its \<open>contracts\<close> field,
  0 when the field is missing; a position is flat when its size equals exactly 0.
\<close>

definition position_size :: "pydict \<Rightarrow> pyval" where
  "position_size pos = (case map_of pos ''contracts'' of None \<Rightarrow> PInt 0 | Some v \<Rightarrow> v)"

definition size_is_zero :: "pydict \<Rightarrow> bool" where
  "size_is_zero pos = (num_of (position_size pos) = Some 0)"

section \<open>Numbers as text\<close>

definition digit_char :: "nat \<Rightarrow> char" where
  "digit_char n = ''0123456789'' ! (n mod 10)"

fun nat_digits :: "nat \<Rightarrow> string" where
  "nat_digits n = (if n < 10 then [digit_char n] else nat_digits (n div 10) @ [digit_char n])"

declare nat_digits.simps [simp del]

text \<open>\<open>str(i)\<close> of an int.\<close>

definition int_str :: "int \<Rightarrow> string" where
  "int_str i = (if i < 0 then CHR ''-'' # nat_digits (nat (- i)) else nat_digits (nat i))"

text \<open>
  The thousands separator of the format specification \<open>,\<close>: a comma before every
  group of three digits, counted from the right. \<open>group_rev\<close> works on the reversed
  digits.
\<close>

fun group_rev :: "string \<Rightarrow> string" where
  "group_rev (a # b # c # d # rest) = a # b # c # CHR '','' # group_rev (d # rest)"
| "group_rev ds = ds"

definition group_thousands :: "string \<Rightarrow> string" where
  "group_thousands ds = rev (group_rev (rev ds))"

text \<open>
  The presentation type \<open>f\<close> rounds the exact value of the number to the given number
  of decimals, a tie to the even neighbour.
\<close>

definition round_half_even :: "rat \<Rightarrow> int" where
  "round_half_even q =
     (let f = \<lfloor>q\<rfloor>; r = q - of_int f
      in if r < 1 / 2 then f else if 1 / 2 < r then f + 1 else if even f then f else f + 1)"

definition pad_zeros :: "nat \<Rightarrow> string \<Rightarrow> string" where
  "pad_zeros d ds = replicate (d - length ds) CHR ''0'' @ ds"

text \<open>
  \<open>format(q, ',.df')\<close> when \<open>commas\<close> holds and \<open>format(q, '.df')\<close> otherwise,
  for a number of value \<open>q\<close>. The sign is that of the number, also when it rounds to
  zero. (The negative zero of the floats is outside the model.)
\<close>

definition fmt_f :: "bool \<Rightarrow> nat \<Rightarrow> rat \<Rightarrow> string" where
  "fmt_f commas d q =
     (let scaled = nat (round_half_even (\<bar>q\<bar> * 10 ^ d));
          int_digits = nat_digits (scaled div 10 ^ d);
          frac_digits = pad_zeros d (nat_digits (scaled mod 10 ^ d))
      in (if q < 0 then ''-'' else '''')
         @ (if commas then group_thousands int_digits else int_digits)
         @ (if d = 0 then '''' else CHR ''.'' # frac_digits))"

text \<open>
  An f-string field \<open>{v:,.df}\<close> or \<open>{v:.df}\<close>: numbers are formatted, a string
  raises \<open>ValueError\<close> (unknown format code), \<open>None\<close> and a dict raise
  \<open>TypeError\<close>.
\<close>

definition py_format_f :: "bool \<Rightarrow> nat \<Rightarrow> pyval \<Rightarrow> exn + string" where
  "py_format_f commas d v =
     (case v of
        PStr s \<Rightarrow> Inl ValueError
      | _ \<Rightarrow> (case num_of v of None \<Rightarrow> Inl TypeError | Some q \<Rightarrow> Inr (fmt_f commas d q)))"

text \<open>
  \<open>float(s)\<close> of a string, for the decimal literals \<open>[sign] digits [. digits]\<close>
  with at least one digit. The other forms that Python reads (surrounding blanks,
  exponents, underscores, \<open>inf\<close>, \<open>nan\<close>) are outside the model; no string that the
  dashboard formats has one of them.
\<close>

definition digit_val :: "char \<Rightarrow> nat option" where
  "digit_val c = map_of (zip ''0123456789'' [0, 1, 2, 3, 4, 5, 6, 7, 8, 9]) c"

fun digits_val :: "nat \<Rightarrow> string \<Rightarrow> nat option" where
  "digits_val acc [] = Some acc"
| "digits_val acc (c # cs) =
     (case digit_val c of None \<Rightarrow> None | Some v \<Rightarrow> digits_val (10 * acc + v) cs)"

definition parse_unsigned :: "string \<Rightarrow> rat option" where
  "parse_unsigned s =
     (let ip = takeWhile (\<lambda>c. c \<noteq> CHR ''.'') s; rest = dropWhile (\<lambda>c. c \<noteq> CHR ''.'') s
      in case rest of
           [] \<Rightarrow> (if ip = [] then None else map_option of_nat (digits_val 0 ip))
         | dot # fp \<Rightarrow>
             (if ip = [] \<and> fp = [] then None
              else (case (digits_val 0 ip, digits_val 0 fp) of
                      (Some a, Some b) \<Rightarrow> Some (of_nat a + of_nat b / 10 ^ length fp)
                    | _ \<Rightarrow> None)))"

definition parse_decimal :: "string \<Rightarrow> rat option" where
  "parse_decimal s =
     (case s of
        [] \<Rightarrow> None
      | c # cs \<Rightarrow>
          (if c = CHR ''-'' then map_option uminus (parse_unsigned cs)
           else if c = CHR ''+'' then parse_unsigned cs
           else parse_unsigned s))"

text \<open>\<open>float(v)\<close>\<close>

definition py_float :: "pyval \<Rightarrow> exn + rat" where
  "py_float v =
     (case v of
        PStr s \<Rightarrow> (case parse_decimal s of None \<Rightarrow> Inl ValueError | Some q \<Rightarrow> Inr q)
      | _ \<Rightarrow> (case num_of v of None \<Rightarrow> Inl TypeError | Some q \<Rightarrow> Inr q))"

text \<open>
  \<open>str(v)\<close>. The text of a float (its shortest representation) and of a dict are not
  modelled: \<open>repr_of\<close> stands for them.
\<close>

definition py_str :: "(pyval \<Rightarrow> string) \<Rightarrow> pyval \<Rightarrow> string" where
  "py_str repr_of v =
     (case v of
        PNone \<Rightarrow> ''None''
      | PBool b \<Rightarrow> (if b then ''True'' else ''False'')
      | PInt i \<Rightarrow> int_str i
      | PStr s \<Rightarrow> s
      | _ \<Rightarrow> repr_of v)"

text \<open>Truth value of a value in a condition.\<close>

definition truthy :: "pyval \<Rightarrow> bool" where
  "truthy v =
     (case v of
        PNone \<Rightarrow> False
      | PBool b \<Rightarrow> b
      | PInt i \<Rightarrow> i \<noteq> 0
      | PFloat q \<Rightarrow> q \<noteq> 0
      | PStr s \<Rightarrow> s \<noteq> []
      | PDict d \<Rightarrow> d \<noteq> [])"





section \<open>The page\<close>

text \<open>
  The code of the page runs top to bottom; an exception that escapes stops the run. What
  a section has handed to the user interface before the exception stays on the page, so
  a section is modelled by the events it issues and the exception that ended it, if any.
\<close>

definition bind_exn :: "exn + 'a \<Rightarrow> ('a \<Rightarrow> exn + 'b) \<Rightarrow> exn + 'b" where
  "bind_exn r f = (case r of Inl e \<Rightarrow> Inl e | Inr x \<Rightarrow> f x)"

fun emit_all :: "(exn + event) list \<Rightarrow> event list \<times> exn option" where
  "emit_all [] = ([], None)"
| "emit_all (Inl e # steps) = ([], Some e)"
| "emit_all (Inr ev # steps) = (case emit_all steps of (evs, r) \<Rightarrow> (ev # evs, r))"

text \<open>\<open>a > n\<close> for an int literal \<open>n\<close>, and the true division \<open>a / b\<close>.\<close>

definition py_gt_int :: "pyval \<Rightarrow> int \<Rightarrow> exn + bool" where
  "py_gt_int v n = (case num_of v of None \<Rightarrow> Inl TypeError | Some q \<Rightarrow> Inr (q > of_int n))"

definition py_truediv :: "pyval \<Rightarrow> pyval \<Rightarrow> exn + rat" where
  "py_truediv a b =
     (case (num_of a, num_of b) of
        (Some x, Some y) \<Rightarrow> (if y = 0 then Inl ZeroDivisionError else Inr (x / y))
      | _ \<Rightarrow> Inl TypeError)"

text \<open>\<open>st.metric(label, f"${v:,.df}")\<close>\<close>

definition metric_money :: "string \<Rightarrow> nat \<Rightarrow> pyval \<Rightarrow> exn + event" where
  "metric_money label d v =
     bind_exn (py_format_f True d v) (\<lambda>s. Inr (St_metric label (CHR ''$'' # s)))"

subsection \<open>Account balance\<close>

definition balance_cards :: "pydict \<Rightarrow> event list \<times> exn option" where
  "balance_cards usdc =
     (let total = dict_get usdc ''total'' (PInt 0);
          free = dict_get usdc ''free'' (PInt 0);
          used = dict_get usdc ''used'' (PInt 0)
      in case emit_all [metric_money ''Total Balance'' 2 total,
                        metric_money ''Free Balance'' 2 free,
                        metric_money ''Used Margin'' 2 used] of
           (evs, Some e) \<Rightarrow> (evs, Some e)
         | (evs, None) \<Rightarrow>
             (case py_gt_int total 0 of
                Inl e \<Rightarrow> (evs, Some e)
              | Inr False \<Rightarrow> (evs, None)
              | Inr True \<Rightarrow>
                  (case py_truediv used total of
                     Inl e \<Rightarrow> (evs, Some e)
                   | Inr q \<Rightarrow>
                       (let usage_percent = q * 100
                        in (evs @ [St_progress (usage_percent / 100)
                                     (''Margin Usage: '' @ fmt_f False 1 usage_percent @ ''%'')],
                            None)))))"

definition balance_section :: "pydict option \<Rightarrow> event list \<times> exn option" where
  "balance_section balance =
     (case balance of
        None \<Rightarrow> ([St_warning ''Unable to fetch account balance''], None)
      | Some b \<Rightarrow>
          (if b \<noteq> [] \<and> map_of b ''USDC'' \<noteq> None
           then (case dict_get b ''USDC'' PNone of
                   PDict usdc \<Rightarrow> balance_cards usdc
                 | _ \<Rightarrow> ([], None))
           else ([St_warning ''Unable to fetch account balance''], None)))"

subsection \<open>Open positions: the summary\<close>


subsection \<open>Trade history: the rows\<close>

text \<open>
  What the host supplies: \<open>datetime.fromtimestamp\<close> (it depends on the time zone and
  raises outside the range of \<open>datetime\<close>), \<open>strftime('%Y-%m-%d %H:%M:%S')\<close>, and
  the text of the values whose \<open>str\<close> is not modelled.
\<close>

record host =
  fromtimestamp :: "rat \<Rightarrow> exn + datetime"
  strftime :: "datetime \<Rightarrow> string"
  repr_of :: "pyval \<Rightarrow> string"

text \<open>\<open>s.upper()\<close>, for the ASCII letters.\<close>

definition upper_char :: "char \<Rightarrow> char" where
  "upper_char c =
     (case map_of (zip ''abcdefghijklmnopqrstuvwxyz'' ''ABCDEFGHIJKLMNOPQRSTUVWXYZ'') c of
        None \<Rightarrow> c
      | Some u \<Rightarrow> u)"

definition py_upper :: "pyval \<Rightarrow> exn + pyval" where
  "py_upper v = (case v of PStr s \<Rightarrow> Inr (PStr (map upper_char s)) | _ \<Rightarrow> Inl AttributeError)"

text \<open>\<open>info.get('closedPnl', None)\<close> and \<open>info.get('oid', None)\<close>, normalized.\<close>

definition closed_pnl_of :: "pydict \<Rightarrow> exn + rat" where
  "closed_pnl_of info =
     (case dict_get info ''closedPnl'' PNone of
        PNone \<Rightarrow> Inr 0
      | closed_pnl \<Rightarrow> py_float closed_pnl)"

definition order_id_of :: "(pyval \<Rightarrow> string) \<Rightarrow> pydict \<Rightarrow> string" where
  "order_id_of repr info =
     (case dict_get info ''oid'' PNone of
        PNone \<Rightarrow> ''N/A''
      | order_id \<Rightarrow> py_str repr order_id)"

text \<open>
  \<open>dt = datetime.fromtimestamp(timestamp / 1000) if timestamp else datetime.now()\<close>;
  \<open>now\<close> is what \<open>datetime.now()\<close> returns when the row is built.
\<close>

definition trade_time :: "host \<Rightarrow> datetime \<Rightarrow> pyval \<Rightarrow> exn + datetime" where
  "trade_time h now timestamp =
     (if truthy timestamp
      then bind_exn (py_truediv timestamp (PInt 1000)) (fromtimestamp h)
      else Inr now)"

definition trade_row :: "host \<Rightarrow> datetime \<Rightarrow> pydict \<Rightarrow> exn + pydict" where
  "trade_row h now trade =
     (let symbol = dict_get trade ''symbol'' (PStr ''N/A'');
          side = dict_get trade ''side'' (PStr ''N/A'');
          amount = dict_get trade ''amount'' (PInt 0);
          price = dict_get trade ''price'' (PInt 0);
          cost = dict_get trade ''cost'' (PInt 0);
          fee = dict_get trade ''fee'' (PDict []);
          fee_cost = (case fee of PDict f \<Rightarrow> dict_get f ''cost'' (PInt 0) | _ \<Rightarrow> PInt 0)
      in case dict_get trade ''info'' (PDict []) of
           PDict info \<Rightarrow>
             bind_exn (closed_pnl_of info) (\<lambda>closed_pnl.
             let order_id = order_id_of (repr_of h) info;
                 timestamp = dict_get trade ''timestamp'' (PInt 0)
             in bind_exn (trade_time h now timestamp) (\<lambda>dt.
                bind_exn (py_upper side) (\<lambda>side_upper.
                bind_exn (py_format_f False 6 amount) (\<lambda>amount_text.
                bind_exn (py_format_f True 2 price) (\<lambda>price_text.
                bind_exn (py_format_f True 2 cost) (\<lambda>cost_text.
                bind_exn (py_format_f False 4 fee_cost) (\<lambda>fee_text.
                  Inr [(''Time'', PStr (strftime h dt)),
                       (''Symbol'', symbol),
                       (''Side'', side_upper),
                       (''OID'', PStr order_id),
                       (''Amount'', PStr amount_text),
                       (''Price'', PStr (CHR ''$'' # price_text)),
                       (''Cost'', PStr (CHR ''$'' # cost_text)),
                       (''Fee'', PStr (CHR ''$'' # fee_text)),
                       (''Closed PnL'', PStr (CHR ''$'' # fmt_f True 2 closed_pnl))])))))))
         | _ \<Rightarrow> Inl AttributeError)"


subsection \<open>Trade history: filters and statistics\<close>



text \<open>\<open>float(cell.replace('$', '').replace(',', ''))\<close>\<close>

definition money_float :: "pyval \<Rightarrow> exn + rat" where
  "money_float cell =
     (case cell of
        PStr s \<Rightarrow> py_float (PStr (filter (\<lambda>c. c \<noteq> CHR '','') (filter (\<lambda>c. c \<noteq> CHR ''$'') s)))
      | _ \<Rightarrow> Inl AttributeError)"






section \<open>The words of the specification\<close>


text \<open>A trade whose timestamp field is missing or zero.\<close>

definition timestamp_missing_or_zero :: "pydict \<Rightarrow> bool" where
  "timestamp_missing_or_zero x =
     (case map_of x ''timestamp'' of None \<Rightarrow> True | Some v \<Rightarrow> num_of v = Some 0)"





definition cell_value :: "pyval \<Rightarrow> rat" where
  "cell_value cell = (case money_float cell of Inl e \<Rightarrow> 0 | Inr q \<Rightarrow> q)"



text \<open>The value of a number rounded to \<open>d\<close> decimals, as its formatted text reads.\<close>

definition rounded :: "nat \<Rightarrow> rat \<Rightarrow> rat" where
  "rounded d q =
     (if q < 0 then - 1 else 1) * of_nat (nat (round_half_even (\<bar>q\<bar> * 10 ^ d))) / 10 ^ d"

definition is_digit :: "char \<Rightarrow> bool" where
  "is_digit c = (digit_val c \<noteq> None)"


section \<open>Example data\<close>

definition example_positions :: "pydict list" where
  "example_positions =
     [[(''symbol'', PStr ''BTC/USDC:USDC''), (''contracts'', PFloat (1/2))],
      [(''symbol'', PStr ''ETH/USDC:USDC''), (''contracts'', PFloat 0)],
      [(''symbol'', PStr ''XRP/USDC:USDC'')],
      [(''symbol'', PStr ''SOL/USDC:USDC''), (''contracts'', PInt (-3))]]"

definition example_gateway :: gateway where
  "example_gateway = \<lparr>fetch_balance = Inl (GatewayError ''timeout''),
     fetch_positions = Inr example_positions,
     fetch_my_trades = (\<lambda>symbol since. Inl (GatewayError ''timeout''))\<rparr>"

definition utc_timestamp :: "datetime \<Rightarrow> exn + rat" where
  "utc_timestamp dt = Inr (of_int (dt - 719162 * 86400000000) / 1000000)"

definition example_now :: datetime where
  "example_now = 719162 * 86400000000 + 1700000000123456"

definition example_trade_a :: pydict where
  "example_trade_a = [(''symbol'', PStr ''BTC/USDC:USDC''), (''side'', PStr ''buy''),
     (''timestamp'', PInt 1699900000000), (''amount'', PFloat (1/100)), (''price'', PInt 37000),
     (''cost'', PInt 370), (''fee'', PDict [(''cost'', PFloat (1295/10000))]),
     (''info'', PDict [(''oid'', PInt 101), (''closedPnl'', PStr ''0.0'')])]"

definition example_trade_b :: pydict where
  "example_trade_b = [(''symbol'', PStr ''BTC/USDC:USDC''), (''side'', PStr ''buy''),
     (''timestamp'', PInt 1699950000000), (''amount'', PFloat (1/50)), (''price'', PInt 37500),
     (''cost'', PInt 750), (''fee'', PDict [(''cost'', PFloat (2625/10000))]),
     (''info'', PDict [(''oid'', PInt 102)])]"

definition example_trade_c :: pydict where
  "example_trade_c = [(''symbol'', PStr ''ETH/USDC:USDC''), (''side'', PStr ''buy''),
     (''timestamp'', PInt 1699950000000), (''amount'', PInt 1), (''price'', PInt 2000),
     (''cost'', PInt 2000), (''fee'', PDict [(''cost'', PFloat (7/10))]),
     (''info'', PDict [(''oid'', PInt 103), (''closedPnl'', PStr ''-12.25'')])]"

definition example_trade_d :: pydict where
  "example_trade_d = [(''symbol'', PStr ''ETH/USDC:USDC''), (''side'', PStr ''buy''),
     (''amount'', PInt 2), (''price'', PInt 1990), (''cost'', PInt 3980)]"

definition example_trades_gateway :: gateway where
  "example_trades_gateway = \<lparr>fetch_balance = Inl (GatewayError ''timeout''),
     fetch_positions = Inl (GatewayError ''timeout''),
     fetch_my_trades = (\<lambda>symbol since.
       if symbol = ''BTC/USDC:USDC'' then Inr [example_trade_a, example_trade_b]
       else if symbol = ''ETH/USDC:USDC'' then Inr [example_trade_d, example_trade_c]
       else Inl (GatewayError ''unknown symbol''))\<rparr>"

text \<open>
  A host on UTC; its \<open>strftime\<close> stands in for the calendar text of a time and prints
  the count of microseconds.
\<close>

definition example_host :: host where
  "example_host = \<lparr>fromtimestamp = (\<lambda>q. Inr (\<lfloor>q * 1000000\<rfloor> + 719162 * 86400000000)),
     strftime = int_str,
     repr_of = (\<lambda>v. ''?'')\<rparr>"

definition example_row_a :: pydict where
  "example_row_a = [(''Time'', PStr ''63835496800000000''), (''Symbol'', PStr ''BTC/USDC:USDC''),
     (''Side'', PStr ''BUY''), (''OID'', PStr ''101''),
     (''Amount'', PStr ''0.010000''), (''Price'', PStr ''$37,000.00''),
     (''Cost'', PStr ''$370.00''), (''Fee'', PStr ''$0.1295''),
     (''Closed PnL'', PStr ''$0.00'')]"








section \<open>Open positions\<close>

lemma active_positions_filter:
  "active_positions raw = filter (\<lambda>pos. \<not> size_is_zero pos) raw"
proof (induction raw)
  case Nil
  show ?case by simp
next
  case (Cons pos raw)
  have "py_ne_int (dict_get pos ''contracts'' (PInt 0)) 0 = (\<not> size_is_zero pos)"
    by (simp add: py_ne_int_def dict_get_def size_is_zero_def position_size_def
        split: option.splits)
  with Cons show ?case by simp
qed

text \<open>
  C1: when the gateway returns a raw position list, \<open>get_open_positions\<close> returns
  exactly the entries whose size is not zero, in the order of the raw list: an entry
  whose \<open>contracts\<close> field equals 0 or is missing is left out, every other entry is
  kept.
\<close>

theorem get_open_positions_nonzero:
  assumes "fetch_positions gw = Inr raw"
  shows "fst (get_open_positions (Some gw)) = filter (\<lambda>pos. \<not> size_is_zero pos) raw
    \<and> (\<forall>pos \<in> set raw. size_is_zero pos \<longrightarrow> pos \<notin> set (fst (get_open_positions (Some gw))))
    \<and> (\<forall>pos \<in> set raw. \<not> size_is_zero pos \<longrightarrow> pos \<in> set (fst (get_open_positions (Some gw))))
    \<and> subseq (fst (get_open_positions (Some gw))) raw"
proof -
  have res: "fst (get_open_positions (Some gw)) = filter (\<lambda>pos. \<not> size_is_zero pos) raw"
    using assms by (simp add: get_open_positions_def active_positions_filter)
  show ?thesis
    unfolding res by (simp add: subseq_filter_left)
qed

theorem get_open_positions_nonzero_witness:
  "fetch_positions example_gateway = Inr example_positions
   \<and> fst (get_open_positions (Some example_gateway)) =
     [[(''symbol'', PStr ''BTC/USDC:USDC''), (''contracts'', PFloat (1/2))],
      [(''symbol'', PStr ''SOL/USDC:USDC''), (''contracts'', PInt (-3))]]"
proof -
  have h: "fetch_positions example_gateway = Inr example_positions"
    by (simp add: example_gateway_def)
  have z: "filter (\<lambda>pos. \<not> size_is_zero pos) example_positions =
     [[(''symbol'', PStr ''BTC/USDC:USDC''), (''contracts'', PFloat (1/2))],
      [(''symbol'', PStr ''SOL/USDC:USDC''), (''contracts'', PInt (-3))]]"
    by (simp add: example_positions_def size_is_zero_def position_size_def)
  show ?thesis
    using get_open_positions_nonzero [OF h] h z by simp
qed

section \<open>Trade history\<close>

lemma fetch_symbols_acc:
  "fetch_symbols gw since syms (all_trades, evs) =
     (all_trades @ concat (map (symbol_result gw since) syms),
      evs @ map (\<lambda>s. Gw_fetch_my_trades s since) syms)"
  by (induction syms arbitrary: all_trades evs)
     (auto simp: symbol_result_def split: sum.splits)

lemma fetch_symbols_combined:
  "fetch_symbols gw since symbols ([], []) =
     (combined_trades gw since, map (\<lambda>s. Gw_fetch_my_trades s since) symbols)"
  by (simp add: fetch_symbols_acc combined_trades_def)

lemma py_sort_reverse_num:
  assumes "list_all (\<lambda>x. is_num (key x)) xs"
  shows "\<exists>ys. py_sort_reverse key xs = Inr ys
     \<and> mset ys = mset xs
     \<and> sorted_wrt (\<lambda>a b. num_val (key a) \<ge> num_val (key b)) ys
     \<and> (\<forall>k. filter (\<lambda>x. num_val (key x) = k) ys = filter (\<lambda>x. num_val (key x) = k) xs)"
proof (cases "length xs \<le> 1")
  case True
  then have "xs = [] \<or> (\<exists>x. xs = [x])"
    by (cases xs) auto
  then show ?thesis
    using True by (auto simp: py_sort_reverse_def)
next
  case False
  let ?f = "\<lambda>x. num_val (key x)"
  let ?ys = "rev (sort_key ?f (rev xs))"
  have res: "py_sort_reverse key xs = Inr ?ys"
    using False assms by (simp add: py_sort_reverse_def)
  have "sorted (map ?f (sort_key ?f (rev xs)))"
    by (rule sorted_sort_key)
  then have "sorted_wrt (\<lambda>a b. ?f a \<le> ?f b) (sort_key ?f (rev xs))"
    by (simp add: sorted_wrt_map)
  then have s: "sorted_wrt (\<lambda>a b. ?f a \<ge> ?f b) ?ys"
    by (simp add: sorted_wrt_rev)
  have st: "filter (\<lambda>x. ?f x = k) ?ys = filter (\<lambda>x. ?f x = k) xs" for k
    by (simp add: rev_filter [symmetric] sort_key_stable)
  show ?thesis
    using res s st by simp
qed

text \<open>
  C3: when the construction of the gateway fails, the client is left without a
  connection. Then, with no call to the gateway and no exception, the balance is absent
  (\<open>None\<close>), the open positions and the trade history are empty, and the balance
  section shows its warning.
\<close>

theorem gateway_init_failure:
  "initialize_client (Inl e) = (None, [St_error ''Error initializing client: '' e])
   \<and> get_account_balance (fst (initialize_client (Inl e))) = (None, [])
   \<and> get_open_positions (fst (initialize_client (Inl e))) = ([], [])
   \<and> get_trade_history timestamp_of now (fst (initialize_client (Inl e))) days = ([], [])
   \<and> balance_section (fst (get_account_balance (fst (initialize_client (Inl e)))))
       = ([St_warning ''Unable to fetch account balance''], None)"
  by (simp add: initialize_client_def get_account_balance_def get_open_positions_def
      get_trade_history_def balance_section_def)





lemma floor_numeral_div_rat:
  "\<lfloor>numeral a / numeral b :: rat\<rfloor> = numeral a div numeral b"
  using floor_divide_of_int_eq [of "numeral a" "numeral b", where ?'a = rat] by simp

lemma example_cutoff: "cutoff utc_timestamp example_now 2 = Inr 1699827200123"
  by (simp add: cutoff_def timedelta_days_def datetime_sub_def datetime_limit_def
      example_now_def utc_timestamp_def py_int_def floor_numeral_div_rat)

lemma get_trade_history_result:
  assumes "cutoff timestamp_of now days = Inr since"
    and "py_sort_reverse trade_key (combined_trades gw since) = Inr ys"
  shows "fst (get_trade_history timestamp_of now (Some gw) days) = ys"
  using assms by (simp add: get_trade_history_def fetch_symbols_combined)


lemma example_combined:
  "combined_trades example_trades_gateway since =
     [example_trade_a, example_trade_b, example_trade_d, example_trade_c]"
  by (simp add: combined_trades_def symbols_def symbol_result_def example_trades_gateway_def)

lemma example_keys:
  "trade_key example_trade_a = PInt 1699900000000"
  "trade_key example_trade_b = PInt 1699950000000"
  "trade_key example_trade_c = PInt 1699950000000"
  "trade_key example_trade_d = PInt 0"
  by (simp_all add: trade_key_def dict_get_def example_trade_a_def example_trade_b_def
      example_trade_c_def example_trade_d_def)

lemma example_sorted:
  "py_sort_reverse trade_key [example_trade_a, example_trade_b, example_trade_d, example_trade_c]
     = Inr [example_trade_b, example_trade_c, example_trade_a, example_trade_d]"
  by (simp add: py_sort_reverse_def example_keys is_num_def num_val_def)



section \<open>Trade rows\<close>

lemma falsy_zero: "num_of v = Some 0 \<Longrightarrow> \<not> truthy v"
  by (cases v) (auto simp: truthy_def split: if_splits)

lemma truthy_num: "num_of v = Some q \<Longrightarrow> q \<noteq> 0 \<Longrightarrow> truthy v"
  by (cases v) (auto simp: truthy_def split: if_splits)

lemma missing_or_zero_key:
  "timestamp_missing_or_zero x \<Longrightarrow> num_of (trade_key x) = Some 0"
  by (simp add: timestamp_missing_or_zero_def trade_key_def dict_get_def split: option.splits)

lemma trade_row_cells:
  assumes "trade_row h now trade = Inr row"
  shows "\<exists>info closed dt.
      dict_get trade ''info'' (PDict []) = PDict info
    \<and> closed_pnl_of info = Inr closed
    \<and> trade_time h now (dict_get trade ''timestamp'' (PInt 0)) = Inr dt
    \<and> map_of row ''Time'' = Some (PStr (strftime h dt))
    \<and> map_of row ''OID'' = Some (PStr (order_id_of (repr_of h) info))
    \<and> map_of row ''Closed PnL'' = Some (PStr (CHR ''$'' # fmt_f True 2 closed))"
proof (cases "dict_get trade ''info'' (PDict [])")
  case (PDict info)
  from assms PDict show ?thesis
    by (auto simp: trade_row_def bind_exn_def Let_def split: sum.splits)
qed (use assms in \<open>simp_all add: trade_row_def Let_def\<close>)

lemma trade_time_falsy:
  "timestamp_missing_or_zero trade \<Longrightarrow>
     trade_time h now (dict_get trade ''timestamp'' (PInt 0)) = Inr now"
  using falsy_zero [OF missing_or_zero_key [of trade]]
  by (simp add: trade_time_def trade_key_def)

text \<open>
  C9: the time shown for a trade is the current time when its timestamp is missing or
  zero, and the local time of the epoch milliseconds (\<open>fromtimestamp\<close> of the
  timestamp divided by 1000) when the timestamp is present and not zero; the row shows
  this time as text.
\<close>

theorem trade_time_display:
  "(timestamp_missing_or_zero trade \<longrightarrow>
      trade_time h now (dict_get trade ''timestamp'' (PInt 0)) = Inr now)
   \<and> (\<forall>v q. map_of trade ''timestamp'' = Some v \<and> num_of v = Some q \<and> q \<noteq> 0 \<longrightarrow>
      trade_time h now (dict_get trade ''timestamp'' (PInt 0)) = fromtimestamp h (q / 1000))
   \<and> (\<forall>row. trade_row h now trade = Inr row \<longrightarrow>
      (\<exists>dt. trade_time h now (dict_get trade ''timestamp'' (PInt 0)) = Inr dt
         \<and> map_of row ''Time'' = Some (PStr (strftime h dt))))"
proof (intro conjI allI impI)
  assume "timestamp_missing_or_zero trade"
  then show "trade_time h now (dict_get trade ''timestamp'' (PInt 0)) = Inr now"
    by (rule trade_time_falsy)
next
  fix v q
  assume a: "map_of trade ''timestamp'' = Some v \<and> num_of v = Some q \<and> q \<noteq> 0"
  then have "truthy v"
    using truthy_num by blast
  with a show "trade_time h now (dict_get trade ''timestamp'' (PInt 0)) = fromtimestamp h (q / 1000)"
    by (simp add: trade_time_def dict_get_def py_truediv_def bind_exn_def)
next
  fix row
  assume "trade_row h now trade = Inr row"
  from trade_row_cells [OF this]
  show "\<exists>dt. trade_time h now (dict_get trade ''timestamp'' (PInt 0)) = Inr dt
         \<and> map_of row ''Time'' = Some (PStr (strftime h dt))"
    by blast
qed


lemma sorted_wrt_nth_less:
  assumes "sorted_wrt (\<lambda>a b. f a \<ge> f b) xs" and "i < length xs" and "j < length xs"
    and "f (xs ! i) < (f (xs ! j) :: rat)"
  shows "j < i"
proof (rule ccontr)
  assume "\<not> j < i"
  then have "i < j \<or> i = j" by auto
  then show False
  proof
    assume "i < j"
    with assms(1,3) have "f (xs ! i) \<ge> f (xs ! j)"
      by (simp add: sorted_wrt_iff_nth_less)
    with assms(4) show False by simp
  next
    assume "i = j"
    with assms(4) show False by simp
  qed
qed

text \<open>
  C10: a trade whose timestamp is missing or zero is sorted under the key 0. In the
  result of \<open>get_trade_history\<close> it stands after every trade with a positive
  timestamp, although the time shown for it is the current time.
\<close>

theorem missing_timestamp_sorts_last:
  assumes "cutoff timestamp_of now days = Inr since"
    and "list_all (\<lambda>x. is_num (trade_key x)) (combined_trades gw since)"
    and "res = fst (get_trade_history timestamp_of now (Some gw) days)"
    and "i < length res" and "j < length res"
    and "timestamp_missing_or_zero (res ! i)"
    and "0 < timestamp_num (res ! j)"
  shows "num_of (trade_key (res ! i)) = Some 0 \<and> j < i
    \<and> trade_time h clock (dict_get (res ! i) ''timestamp'' (PInt 0)) = Inr clock"
proof -
  obtain ys where ys: "py_sort_reverse trade_key (combined_trades gw since) = Inr ys"
    and s: "sorted_wrt (\<lambda>a b. num_val (trade_key a) \<ge> num_val (trade_key b)) ys"
    using py_sort_reverse_num [OF assms(2)] by blast
  have res: "res = ys"
    using assms(1,3) ys by (simp add: get_trade_history_result)
  have k: "num_of (trade_key (res ! i)) = Some 0"
    using assms(6) by (rule missing_or_zero_key)
  then have "num_val (trade_key (res ! i)) < num_val (trade_key (res ! j))"
    using assms(7) by (simp add: timestamp_num_def num_val_def)
  with s assms(4,5) have "j < i"
    unfolding res by (rule sorted_wrt_nth_less)
  with k trade_time_falsy [OF assms(6)] show ?thesis
    by simp
qed

section \<open>Evaluating the formats\<close>

lemma fmt_f_scaled:
  assumes "round_half_even (\<bar>q\<bar> * 10 ^ d) = int n"
  shows "fmt_f commas d q =
     (if q < 0 then ''-'' else '''')
     @ (if commas then group_thousands (nat_digits (n div 10 ^ d)) else nat_digits (n div 10 ^ d))
     @ (if d = 0 then '''' else CHR ''.'' # pad_zeros d (nat_digits (n mod 10 ^ d)))"
  by (simp add: fmt_f_def Let_def assms)

lemmas round_eval = round_half_even_def Let_def floor_numeral_div_rat

lemma replicate_numeral_step:
  "replicate (numeral k) x = x # replicate (numeral k - 1) x"
  by (simp add: numeral_eq_Suc)

lemmas digits_eval = nat_digits.simps digit_char_def group_thousands_def pad_zeros_def
  replicate_numeral_step

lemma trade_row_eval:
  assumes "dict_get trade ''info'' (PDict []) = PDict info"
    and "closed_pnl_of info = Inr pnl"
    and "trade_time h now (dict_get trade ''timestamp'' (PInt 0)) = Inr dt"
    and "py_upper (dict_get trade ''side'' (PStr ''N/A'')) = Inr side_upper"
    and "py_format_f False 6 (dict_get trade ''amount'' (PInt 0)) = Inr amount_text"
    and "py_format_f True 2 (dict_get trade ''price'' (PInt 0)) = Inr price_text"
    and "py_format_f True 2 (dict_get trade ''cost'' (PInt 0)) = Inr cost_text"
    and "py_format_f False 4
      (case dict_get trade ''fee'' (PDict []) of
         PDict f \<Rightarrow> dict_get f ''cost'' (PInt 0) | _ \<Rightarrow> PInt 0) = Inr fee_text"
  shows "trade_row h now trade =
     Inr [(''Time'', PStr (strftime h dt)),
          (''Symbol'', dict_get trade ''symbol'' (PStr ''N/A'')),
          (''Side'', side_upper),
          (''OID'', PStr (order_id_of (repr_of h) info)),
          (''Amount'', PStr amount_text),
          (''Price'', PStr (CHR ''$'' # price_text)),
          (''Cost'', PStr (CHR ''$'' # cost_text)),
          (''Fee'', PStr (CHR ''$'' # fee_text)),
          (''Closed PnL'', PStr (CHR ''$'' # fmt_f True 2 pnl))]"
  using assms by (simp add: trade_row_def Let_def bind_exn_def)

lemma fmt_eval_1: "fmt_f False 6 (1 / 100) = ''0.010000''"
proof -
  have r: "round_half_even (\<bar>(1 / 100)\<bar> * 10 ^ 6) = int 10000"
    by (simp add: round_eval)
  show ?thesis
    by (simp add: fmt_f_scaled [OF r] digits_eval)
qed

lemma fmt_eval_2: "fmt_f True 2 37000 = ''37,000.00''"
proof -
  have r: "round_half_even (\<bar>37000\<bar> * 10 ^ 2) = int 3700000"
    by (simp add: round_eval)
  show ?thesis
    by (simp add: fmt_f_scaled [OF r] digits_eval)
qed

lemma fmt_eval_3: "fmt_f True 2 370 = ''370.00''"
proof -
  have r: "round_half_even (\<bar>370\<bar> * 10 ^ 2) = int 37000"
    by (simp add: round_eval)
  show ?thesis
    by (simp add: fmt_f_scaled [OF r] digits_eval)
qed

lemma fmt_eval_4: "fmt_f False 4 (259 / 2000) = ''0.1295''"
proof -
  have r: "round_half_even (\<bar>(259 / 2000)\<bar> * 10 ^ 4) = int 1295"
    by (simp add: round_eval)
  show ?thesis
    by (simp add: fmt_f_scaled [OF r] digits_eval)
qed

lemma fmt_eval_5: "fmt_f True 2 0 = ''0.00''"
proof -
  have r: "round_half_even (\<bar>0\<bar> * 10 ^ 2) = int 0"
    by (simp add: round_eval)
  show ?thesis
    by (simp add: fmt_f_scaled [OF r] digits_eval)
qed













lemma example_row_a_eval:
  "trade_row example_host example_now example_trade_a = Inr example_row_a"
proof -
  obtain info where info: "dict_get example_trade_a ''info'' (PDict []) = PDict info"
    and pnl: "closed_pnl_of info = Inr 0"
    and oid: "order_id_of (repr_of example_host) info = ''101''"
    by (simp add: example_trade_a_def dict_get_def closed_pnl_of_def order_id_of_def py_float_def
        py_str_def int_str_def nat_digits.simps digit_char_def parse_decimal_def
        parse_unsigned_def digit_val_def)
  have tm: "trade_time example_host example_now (dict_get example_trade_a ''timestamp'' (PInt 0))
      = Inr 63835496800000000"
    by (simp add: example_trade_a_def dict_get_def trade_time_def truthy_def py_truediv_def bind_exn_def
        example_host_def example_now_def)
  have shown: "strftime example_host 63835496800000000 = ''63835496800000000''"
    by (simp add: example_host_def int_str_def nat_digits.simps digit_char_def)
  have sym: "dict_get example_trade_a ''symbol'' (PStr ''N/A'') = PStr ''BTC/USDC:USDC''"
    by (simp add: example_trade_a_def dict_get_def)
  have side: "py_upper (dict_get example_trade_a ''side'' (PStr ''N/A'')) = Inr (PStr ''BUY'')"
    by (simp add: example_trade_a_def dict_get_def py_upper_def upper_char_def)
  have amount: "py_format_f False 6 (dict_get example_trade_a ''amount'' (PInt 0)) = Inr ''0.010000''"
    using fmt_eval_1 by (simp add: example_trade_a_def dict_get_def py_format_f_def)
  have price: "py_format_f True 2 (dict_get example_trade_a ''price'' (PInt 0)) = Inr ''37,000.00''"
    using fmt_eval_2 by (simp add: example_trade_a_def dict_get_def py_format_f_def)
  have cost: "py_format_f True 2 (dict_get example_trade_a ''cost'' (PInt 0)) = Inr ''370.00''"
    using fmt_eval_3 by (simp add: example_trade_a_def dict_get_def py_format_f_def)
  have fee: "py_format_f False 4
      (case dict_get example_trade_a ''fee'' (PDict []) of
         PDict f \<Rightarrow> dict_get f ''cost'' (PInt 0) | _ \<Rightarrow> PInt 0) = Inr ''0.1295''"
    using fmt_eval_4 by (simp add: example_trade_a_def dict_get_def py_format_f_def)
  show ?thesis
    using trade_row_eval [OF info pnl tm side amount price cost fee]
    by (simp add: oid shown sym fmt_eval_5 example_row_a_def)
qed




section \<open>The examples\<close>

lemma example_numeric_keys:
  "list_all (\<lambda>x. is_num (trade_key x)) (combined_trades example_trades_gateway 1699827200123)"
  by (simp add: example_combined example_keys is_num_def)

lemma example_history:
  "fst (get_trade_history utc_timestamp example_now (Some example_trades_gateway) 2)
     = [example_trade_b, example_trade_c, example_trade_a, example_trade_d]"
  using example_cutoff example_sorted
  by (simp add: get_trade_history_result example_combined)

lemma example_trade_d_missing: "timestamp_missing_or_zero example_trade_d"
  by (simp add: timestamp_missing_or_zero_def example_trade_d_def)


theorem trade_time_display_witness:
  "timestamp_missing_or_zero example_trade_d
   \<and> trade_time example_host example_now (dict_get example_trade_d ''timestamp'' (PInt 0))
       = Inr example_now
   \<and> map_of example_trade_a ''timestamp'' = Some (PInt 1699900000000)
   \<and> num_of (PInt 1699900000000) = Some 1699900000000
   \<and> trade_time example_host example_now (dict_get example_trade_a ''timestamp'' (PInt 0))
       = fromtimestamp example_host (1699900000000 / 1000)
   \<and> fromtimestamp example_host (1699900000000 / 1000) = Inr 63835496800000000
   \<and> trade_row example_host example_now example_trade_a = Inr example_row_a
   \<and> map_of example_row_a ''Time'' = Some (PStr (strftime example_host 63835496800000000))"
proof -
  have ts: "map_of example_trade_a ''timestamp'' = Some (PInt 1699900000000)"
    by (simp add: example_trade_a_def)
  have n: "num_of (PInt 1699900000000) = Some 1699900000000"
    by simp
  have f: "fromtimestamp example_host (1699900000000 / 1000) = Inr 63835496800000000"
    by (simp add: example_host_def)
  show ?thesis
    using trade_time_display [of example_trade_d example_host example_now]
      trade_time_display [of example_trade_a example_host example_now]
      example_trade_d_missing ts n f example_row_a_eval
    by auto
qed

theorem missing_timestamp_sorts_last_witness:
  "cutoff utc_timestamp example_now 2 = Inr 1699827200123
   \<and> list_all (\<lambda>x. is_num (trade_key x)) (combined_trades example_trades_gateway 1699827200123)
   \<and> [example_trade_b, example_trade_c, example_trade_a, example_trade_d]
       = fst (get_trade_history utc_timestamp example_now (Some example_trades_gateway) 2)
   \<and> timestamp_missing_or_zero
        ([example_trade_b, example_trade_c, example_trade_a, example_trade_d] ! 3)
   \<and> 0 < timestamp_num ([example_trade_b, example_trade_c, example_trade_a, example_trade_d] ! 2)
   \<and> num_of (trade_key example_trade_d) = Some 0
   \<and> (2::nat) < 3
   \<and> trade_time example_host example_now (dict_get example_trade_d ''timestamp'' (PInt 0))
       = Inr example_now"
proof -
  let ?res = "[example_trade_b, example_trade_c, example_trade_a, example_trade_d]"
  have r: "?res = fst (get_trade_history utc_timestamp example_now (Some example_trades_gateway) 2)"
    by (simp add: example_history)
  have i: "3 < length ?res" and j: "2 < length ?res"
    by simp_all
  have m: "timestamp_missing_or_zero (?res ! 3)"
    by (simp add: example_trade_d_missing)
  have p: "0 < timestamp_num (?res ! 2)"
    by (simp add: timestamp_num_def example_keys num_val_def)
  show ?thesis
    using missing_timestamp_sorts_last [OF example_cutoff example_numeric_keys r i j m p,
        of example_host example_now]
      example_cutoff example_numeric_keys m p
    by (simp add: example_history)
qed

section \<open>Account balance\<close>







section \<open>Open positions: the aggregate\<close>










section \<open>Formatted numbers read back\<close>

lemma digit_val_digit_char: "digit_val (digit_char n) = Some (n mod 10)"
proof -
  have "n mod 10 < 10" by simp
  then have "n mod 10 = 0 \<or> n mod 10 = 1 \<or> n mod 10 = 2 \<or> n mod 10 = 3 \<or> n mod 10 = 4
    \<or> n mod 10 = 5 \<or> n mod 10 = 6 \<or> n mod 10 = 7 \<or> n mod 10 = 8 \<or> n mod 10 = 9"
    by arith
  then show ?thesis
    by (auto simp: digit_char_def digit_val_def)
qed

lemma is_digit_digit_char: "is_digit (digit_char n)"
  by (simp add: is_digit_def digit_val_digit_char)

lemma is_digit_not_sign:
  assumes "is_digit c"
  shows "c \<noteq> CHR ''.''" and "c \<noteq> CHR '',''" and "c \<noteq> CHR ''$''"
    and "c \<noteq> CHR ''-''" and "c \<noteq> CHR ''+''"
  using assms by (auto simp: is_digit_def digit_val_def)

lemma nat_digits_all_digits: "list_all is_digit (nat_digits n)"
proof (induction n rule: nat_digits.induct)
  case (1 n)
  then show ?case
    by (subst nat_digits.simps) (simp add: is_digit_digit_char)
qed

lemma nat_digits_not_Nil: "nat_digits n \<noteq> []"
  by (subst nat_digits.simps) simp

lemma digits_val_append:
  "digits_val acc (ds @ es) =
     (case digits_val acc ds of None \<Rightarrow> None | Some a \<Rightarrow> digits_val a es)"
  by (induction ds arbitrary: acc) (auto split: option.splits)

lemma digits_val_nat_digits:
  "digits_val acc (nat_digits n) = Some (acc * 10 ^ length (nat_digits n) + n)"
proof (induction n arbitrary: acc rule: nat_digits.induct)
  case (1 n)
  show ?case
  proof (cases "n < 10")
    case True
    then show ?thesis
      by (subst (1 2) nat_digits.simps) (simp add: digit_val_digit_char)
  next
    case False
    have n: "n = 10 * (n div 10) + n mod 10"
      by simp
    from False "1.IH" [of acc]
    have "digits_val acc (nat_digits n) =
        Some (10 * (acc * 10 ^ length (nat_digits (n div 10)) + n div 10) + n mod 10)"
      by (subst nat_digits.simps) (simp add: digits_val_append digit_val_digit_char)
    also have "\<dots> = Some (acc * 10 ^ Suc (length (nat_digits (n div 10))) + n)"
      using n by (simp add: algebra_simps)
    also have "Suc (length (nat_digits (n div 10))) = length (nat_digits n)"
      using False by (subst (2) nat_digits.simps) simp
    finally show ?thesis .
  qed
qed

lemma digits_val_zeros:
  "digits_val 0 (replicate k CHR ''0'' @ ds) = digits_val 0 ds"
  by (induction k) (simp_all add: digit_val_def)

lemma nat_digits_length:
  "n < 10 ^ d \<Longrightarrow> 0 < d \<Longrightarrow> length (nat_digits n) \<le> d"
proof (induction n arbitrary: d rule: nat_digits.induct)
  case (1 n)
  show ?case
  proof (cases "n < 10")
    case True
    with "1.prems" show ?thesis
      by (subst nat_digits.simps) simp
  next
    case False
    with "1.prems" obtain d' where d: "d = Suc d'"
      by (cases d) auto
    with False "1.prems" have "0 < d'"
      by (cases d') auto
    moreover from d "1.prems" have "n div 10 < 10 ^ d'"
      by (simp add: less_mult_imp_div_less mult.commute)
    ultimately have "length (nat_digits (n div 10)) \<le> d'"
      using False "1.IH" by simp
    with False d show ?thesis
      by (subst nat_digits.simps) simp
  qed
qed

lemma is_digit_zero: "is_digit CHR ''0''"
  by (simp add: is_digit_def digit_val_def)

lemma pad_zeros_value:
  assumes "m < 10 ^ d" and "0 < d"
  shows "digits_val 0 (pad_zeros d (nat_digits m)) = Some m"
    and "length (pad_zeros d (nat_digits m)) = d"
    and "list_all is_digit (pad_zeros d (nat_digits m))"
proof -
  show "digits_val 0 (pad_zeros d (nat_digits m)) = Some m"
    by (simp add: pad_zeros_def digits_val_zeros digits_val_nat_digits)
  show "length (pad_zeros d (nat_digits m)) = d"
    using nat_digits_length [OF assms] by (simp add: pad_zeros_def)
  show "list_all is_digit (pad_zeros d (nat_digits m))"
    using nat_digits_all_digits [of m]
    by (auto simp: pad_zeros_def list_all_iff is_digit_zero)
qed

lemma filter_digits:
  assumes "list_all is_digit ds" and "\<not> is_digit x"
  shows "filter (\<lambda>c. c \<noteq> x) ds = ds"
  using assms by (induction ds) auto

lemma not_digit_signs:
  "\<not> is_digit CHR ''$''" "\<not> is_digit CHR '',''" "\<not> is_digit CHR ''.''"
  "\<not> is_digit CHR ''-''" "\<not> is_digit CHR ''+''"
  by (simp_all add: is_digit_def digit_val_def)

lemma group_rev_commas:
  "filter (\<lambda>c. c \<noteq> CHR '','') (group_rev ds) = filter (\<lambda>c. c \<noteq> CHR '','') ds"
  by (induction ds rule: group_rev.induct) auto

lemma group_rev_dollar:
  "filter (\<lambda>c. c \<noteq> CHR ''$'') (group_rev ds) = group_rev ds" if "CHR ''$'' \<notin> set ds"
  using that by (induction ds rule: group_rev.induct) auto

lemma group_thousands_clean:
  assumes "list_all is_digit ds"
  shows "filter (\<lambda>c. c \<noteq> CHR '','') (filter (\<lambda>c. c \<noteq> CHR ''$'') (group_thousands ds)) = ds"
proof -
  have d: "CHR ''$'' \<notin> set (rev ds)"
    using assms not_digit_signs(1) by (auto simp: list_all_iff)
  have "filter (\<lambda>c. c \<noteq> CHR ''$'') (group_thousands ds) = group_thousands ds"
    by (simp add: group_thousands_def rev_filter [symmetric] group_rev_dollar [OF d])
  moreover have "filter (\<lambda>c. c \<noteq> CHR '','') (group_thousands ds) = ds"
    using filter_digits [OF assms not_digit_signs(2)]
    by (simp add: group_thousands_def rev_filter [symmetric] group_rev_commas rev_filter)
  ultimately show ?thesis
    by simp
qed

lemma digits_clean:
  assumes "list_all is_digit ds"
  shows "filter (\<lambda>c. c \<noteq> CHR '','') (filter (\<lambda>c. c \<noteq> CHR ''$'') ds) = ds"
  using filter_digits [OF assms not_digit_signs(1)] filter_digits [OF assms not_digit_signs(2)]
  by simp

lemma parse_unsigned_digits:
  assumes "list_all is_digit ip" and "ip \<noteq> []"
    and "digits_val 0 ip = Some a" and "digits_val 0 fp = Some b"
  shows "parse_unsigned (ip @ CHR ''.'' # fp) = Some (of_nat a + of_nat b / 10 ^ length fp)"
proof -
  have p: "\<And>c. c \<in> set ip \<Longrightarrow> c \<noteq> CHR ''.''"
    using assms(1) not_digit_signs(3) by (auto simp: list_all_iff)
  have t: "takeWhile (\<lambda>c. c \<noteq> CHR ''.'') (ip @ CHR ''.'' # fp) = ip"
    using p by (simp add: takeWhile_append2)
  have d: "dropWhile (\<lambda>c. c \<noteq> CHR ''.'') (ip @ CHR ''.'' # fp) = CHR ''.'' # fp"
    using p by (simp add: dropWhile_append2)
  show ?thesis
    unfolding parse_unsigned_def t d using assms(2-4) by simp
qed

lemma parse_decimal_digits:
  assumes "list_all is_digit ip" and "ip \<noteq> []"
    and "digits_val 0 ip = Some a" and "digits_val 0 fp = Some b"
  shows "parse_decimal (ip @ CHR ''.'' # fp) = Some (of_nat a + of_nat b / 10 ^ length fp)"
    and "parse_decimal (CHR ''-'' # ip @ CHR ''.'' # fp)
      = Some (- (of_nat a + of_nat b / 10 ^ length fp))"
proof -
  from assms(1,2) obtain c cs where ip: "ip = c # cs" and c: "is_digit c"
    by (cases ip) auto
  from c have "c \<noteq> CHR ''-''" and "c \<noteq> CHR ''+''"
    using not_digit_signs by auto
  then show "parse_decimal (ip @ CHR ''.'' # fp) = Some (of_nat a + of_nat b / 10 ^ length fp)"
    using parse_unsigned_digits [OF assms] by (simp add: parse_decimal_def ip)
  show "parse_decimal (CHR ''-'' # ip @ CHR ''.'' # fp)
      = Some (- (of_nat a + of_nat b / 10 ^ length fp))"
    using parse_unsigned_digits [OF assms] by (simp add: parse_decimal_def)
qed

lemma div_mod_fraction:
  fixes n :: nat
  assumes "0 < d"
  shows "(of_nat (n div 10 ^ d) :: rat) + of_nat (n mod 10 ^ d) / 10 ^ d = of_nat n / 10 ^ d"
proof -
  have "(of_nat (n div 10 ^ d) * of_nat (10 ^ d) + of_nat (n mod 10 ^ d) :: rat)
      = of_nat (n div 10 ^ d * 10 ^ d + n mod 10 ^ d)"
    by (simp only: of_nat_add of_nat_mult)
  also have "\<dots> = of_nat n"
    by (simp only: div_mult_mod_eq)
  finally have "(of_nat (n div 10 ^ d) * 10 ^ d + of_nat (n mod 10 ^ d) :: rat) = of_nat n"
    by simp
  then show ?thesis
    by (simp add: field_simps)
qed

lemma money_float_fmt:
  assumes "0 < d"
  shows "money_float (PStr (CHR ''$'' # fmt_f commas d q)) = Inr (rounded d q)"
proof -
  define n where "n = nat (round_half_even (\<bar>q\<bar> * 10 ^ d))"
  define ip where "ip = nat_digits (n div 10 ^ d)"
  define fp where "fp = pad_zeros d (nat_digits (n mod 10 ^ d))"
  have m: "n mod 10 ^ d < 10 ^ d"
    by simp
  have ip: "list_all is_digit ip" "ip \<noteq> []" "digits_val 0 ip = Some (n div 10 ^ d)"
    by (simp_all add: ip_def nat_digits_all_digits nat_digits_not_Nil digits_val_nat_digits)
  have fp: "digits_val 0 fp = Some (n mod 10 ^ d)" "length fp = d" "list_all is_digit fp"
    unfolding fp_def using pad_zeros_value [OF m assms] by simp_all
  have f: "fmt_f commas d q =
      (if q < 0 then ''-'' else '''') @ (if commas then group_thousands ip else ip)
      @ CHR ''.'' # fp"
    using assms by (simp add: fmt_f_def Let_def n_def ip_def fp_def)
  have c: "filter (\<lambda>c. c \<noteq> CHR '','') (filter (\<lambda>c. c \<noteq> CHR ''$'') (CHR ''$'' # fmt_f commas d q))
      = (if q < 0 then ''-'' else '''') @ ip @ CHR ''.'' # fp"
    unfolding f
    using group_thousands_clean [OF ip(1)] digits_clean [OF ip(1)] digits_clean [OF fp(3)]
    by simp
  have mf: "money_float (PStr (CHR ''$'' # fmt_f commas d q))
      = py_float (PStr ((if q < 0 then ''-'' else '''') @ ip @ CHR ''.'' # fp))"
    by (simp only: money_float_def pyval.case c)
  have v: "(of_nat (n div 10 ^ d) :: rat) + of_nat (n mod 10 ^ d) / 10 ^ length fp
      = of_nat n / 10 ^ d"
    using div_mod_fraction [OF assms] fp(2) by simp
  have pos: "parse_decimal (ip @ CHR ''.'' # fp) = Some (of_nat n / 10 ^ d)"
    using parse_decimal_digits(1) [OF ip fp(1)] unfolding v .
  have neg: "parse_decimal (CHR ''-'' # ip @ CHR ''.'' # fp) = Some (- (of_nat n / 10 ^ d))"
    using parse_decimal_digits(2) [OF ip fp(1)] unfolding v .
  have r: "rounded d q = (if q < 0 then - 1 else 1) * of_nat n / 10 ^ d"
    by (simp only: rounded_def n_def)
  show ?thesis
    unfolding mf r using pos neg by (simp add: py_float_def)
qed

section \<open>Trade statistics\<close>

lemma py_format_f_Inr:
  assumes "py_format_f commas d v = Inr s"
  shows "\<exists>q. num_of v = Some q \<and> s = fmt_f commas d q"
  using assms by (cases v) (auto simp: py_format_f_def)



lemma cell_value_fmt: "0 < d \<Longrightarrow> cell_value (PStr (CHR ''$'' # fmt_f commas d q)) = rounded d q"
  by (simp add: cell_value_def money_float_fmt)


text \<open>
  The two money cells of a row read back as the closed PnL of the trade rounded to two
  decimals and its fee rounded to four.
\<close>

lemma trade_row_cell_values:
  assumes "trade_row h now trade = Inr row"
  shows "\<exists>info pnl fee.
      dict_get trade ''info'' (PDict []) = PDict info
    \<and> closed_pnl_of info = Inr pnl
    \<and> num_of (case dict_get trade ''fee'' (PDict []) of
                PDict f \<Rightarrow> dict_get f ''cost'' (PInt 0) | _ \<Rightarrow> PInt 0) = Some fee
    \<and> cell_value (dict_get row ''Closed PnL'' PNone) = rounded 2 pnl
    \<and> cell_value (dict_get row ''Fee'' PNone) = rounded 4 fee"
proof (cases "dict_get trade ''info'' (PDict [])")
  case (PDict info)
  from assms PDict show ?thesis
    by (auto simp: trade_row_def bind_exn_def Let_def dict_get_def [of "_ # _"] cell_value_fmt
        split: sum.splits dest!: py_format_f_Inr)
qed (use assms in \<open>simp_all add: trade_row_def Let_def\<close>)














section \<open>A timestamp that cannot be compared\<close>


end
